theory Spec2Isabelle
  imports Main
begin

section \<open>The TicketBooking contract\<close>

text \<open>
  A shallow embedding of \<^verbatim>\<open>contract TicketBooking is ERC721\<close> (Solidity 0.8.20).
  Storage is a record; a \<^verbatim>\<open>mapping\<close> is a total function, since Solidity reads a
  missing key as the zero value of its type; a \<^verbatim>\<open>uint256\<close> is a natural number and
  the checked increment of Solidity 0.8 is written out (it reverts at \<open>2 ^ 256 - 1\<close>).
  An external function is a function from the storage and the call environment to either
  an error (the transaction reverts, and nothing it did is kept) or the return data
  together with the new storage. The token and the receiver of a minted ticket answer a
  call and do not call back into the contract while they do.
\<close>

subsection \<open>Data\<close>

type_synonym address = nat

definition zero_address :: address where
  "zero_address = 0"

definition max_uint256 :: nat where
  "max_uint256 = 2 ^ 256 - 1"

record Event =
  name :: string
  date :: nat
  price :: nat
  totalTickets :: nat
  soldTickets :: nat
  refundDeadline :: nat

text \<open>The field \<^verbatim>\<open>owner\<close> of \<^verbatim>\<open>struct Ticket\<close> is \<open>ticket_owner\<close> here: the contract
  has an immutable of the same name.\<close>

record Ticket =
  eventId :: nat
  ticket_owner :: address
  isCancelled :: bool

text \<open>The zero values a mapping yields at a key never written.\<close>

definition default_Event :: Event where
  "default_Event =
     \<lparr>name = [], date = 0, price = 0, totalTickets = 0, soldTickets = 0, refundDeadline = 0\<rparr>"

definition default_Ticket :: Ticket where
  "default_Ticket = \<lparr>eventId = 0, ticket_owner = zero_address, isCancelled = False\<rparr>"

subsection \<open>The payment token\<close>

text \<open>
  Modelled from the spec: the payment token behind \<^verbatim>\<open>IERC20 tixcoin\<close>. The contract
  sees it only through the imported interface \<^verbatim>\<open>IERC20\<close>; its code is not part of the
  repository. Section 6 of the specification gives the three calls the ledger makes
  (\<^verbatim>\<open>transferFrom(from, to, amount) -> bool\<close>, a pull that needs the prior authorisation
  of \<open>from\<close>; \<^verbatim>\<open>transfer(to, amount) -> bool\<close>, a push; \<^verbatim>\<open>balanceOf\<close>) and section 4.1 the
  two reasons of a rejection: insufficient balance and insufficient authorisation.

  The interface lets a token signal a rejection in two ways: by reverting (what the
  OpenZeppelin \<^verbatim>\<open>ERC20\<close> under \<^verbatim>\<open>TIXCOIN\<close> does) or by returning \<^verbatim>\<open>false\<close>. Which one
  a token does is the field \<open>returnsFalse\<close>. A call yields \<open>None\<close> when it reverts and
  \<open>Some (b, t)\<close> when it returns \<open>b\<close> and leaves the token as \<open>t\<close>.
\<close>

record Token =
  balances :: "address \<Rightarrow> nat"
  allowances :: "address \<Rightarrow> address \<Rightarrow> nat"
  returnsFalse :: bool

definition token_balanceOf :: "Token \<Rightarrow> address \<Rightarrow> nat" where
  "token_balanceOf t a = balances t a"

definition token_reject :: "Token \<Rightarrow> (bool \<times> Token) option" where
  "token_reject t = (if returnsFalse t then Some (False, t) else None)"

text \<open>The debit is written before the credit is read, so a transfer to oneself changes nothing.\<close>

definition token_move :: "Token \<Rightarrow> address \<Rightarrow> address \<Rightarrow> nat \<Rightarrow> Token" where
  "token_move t src dst amount =
     (let debited = (balances t)(src := balances t src - amount)
      in t\<lparr>balances := debited(dst := debited dst + amount)\<rparr>)"

text \<open>\<open>token_transfer t caller dst amount\<close>: \<open>caller\<close> pushes \<open>amount\<close> to \<open>dst\<close>.\<close>

definition token_transfer :: "Token \<Rightarrow> address \<Rightarrow> address \<Rightarrow> nat \<Rightarrow> (bool \<times> Token) option" where
  "token_transfer t caller dst amount =
     (if balances t caller < amount then token_reject t
      else Some (True, token_move t caller dst amount))"

text \<open>\<open>token_transferFrom t caller src dst amount\<close>: \<open>caller\<close> pulls \<open>amount\<close> from \<open>src\<close> to
  \<open>dst\<close>, spending the allowance \<open>src\<close> gave it.\<close>

definition token_transferFrom ::
  "Token \<Rightarrow> address \<Rightarrow> address \<Rightarrow> address \<Rightarrow> nat \<Rightarrow> (bool \<times> Token) option" where
  "token_transferFrom t caller src dst amount =
     (if allowances t src caller < amount \<or> balances t src < amount then token_reject t
      else Some (True,
        token_move
          (t\<lparr>allowances := (allowances t)(src := (allowances t src)(caller := allowances t src caller - amount))\<rparr>)
          src dst amount))"

subsection \<open>Storage, call environment, errors\<close>

text \<open>
  \<open>self\<close> is \<^verbatim>\<open>address(this)\<close>. \<open>tixcoin\<close> holds the state of the token the immutable
  \<^verbatim>\<open>tixcoin\<close> points to: a transaction that reverts undoes what it did there too.
  \<open>owners721\<close> is the mapping \<^verbatim>\<open>_owners\<close> of the inherited \<^verbatim>\<open>ERC721\<close>, the holder of each
  ticket id (\<open>zero_address\<close>: none).
\<close>

record state =
  self :: address
  owner :: address
  tixcoin :: Token
  eventIdCounter :: nat
  ticketIdCounter :: nat
  events :: "nat \<Rightarrow> Event"
  tickets :: "nat \<Rightarrow> Ticket"
  ownerBookings :: "address \<Rightarrow> nat list"
  owners721 :: "nat \<Rightarrow> address"

text \<open>
  What a call reads from its environment: \<^verbatim>\<open>msg.sender\<close>, \<^verbatim>\<open>block.timestamp\<close>, and the
  answer of the acceptance check that \<^verbatim>\<open>_safeMint\<close> makes on the receiver (true for an
  externally owned account; for a contract, whether its \<^verbatim>\<open>onERC721Received\<close> accepts).
\<close>

record env =
  msg_sender :: address
  block_timestamp :: nat
  accepts721 :: bool

text \<open>
  The ways a call reverts, under the names of the specification's taxonomy:
  \<^item> \<open>Unauthorized\<close>: \<^verbatim>\<open>"Only owner can perform this action"\<close>;
  \<^item> \<open>NotFound\<close>: \<^verbatim>\<open>"Event does not exist"\<close>;
  \<^item> \<open>SoldOut\<close>: \<^verbatim>\<open>"Sold out"\<close>;
  \<^item> \<open>PaymentFailed\<close>: \<^verbatim>\<open>"TIXCOIN transfer failed"\<close>, or a revert of the token itself,
    which the caller passes on;
  \<^item> \<open>NotOwner\<close>: \<^verbatim>\<open>"You do not own this ticket"\<close>;
  \<^item> \<open>AlreadyCancelled\<close>: \<^verbatim>\<open>"Ticket already cancelled"\<close>;
  \<^item> \<open>NothingToWithdraw\<close>: \<^verbatim>\<open>"No funds to withdraw"\<close>;
  \<^item> \<open>Panic\<close>: the arithmetic overflow of a checked \<^verbatim>\<open>++\<close>;
  \<^item> \<open>RegistryError\<close>: a revert of the inherited \<^verbatim>\<open>ERC721\<close> code.
\<close>

datatype error =
  Unauthorized | NotFound | SoldOut | PaymentFailed | NotOwner | AlreadyCancelled
  | NothingToWithdraw | Panic | RegistryError

text \<open>The return data is the list of the words returned: empty for a function declared
  without \<^verbatim>\<open>returns\<close>.\<close>

type_synonym returndata = "nat list"

type_synonym outcome = "error + (returndata \<times> state)"

subsection \<open>The inherited ownership registry\<close>

text \<open>
  Modelled from the spec: the registry primitives \<^verbatim>\<open>ownerOf\<close>, \<^verbatim>\<open>_safeMint\<close> and
  \<^verbatim>\<open>_burn\<close> of the imported OpenZeppelin \<^verbatim>\<open>ERC721\<close>, whose code is not part of the
  repository (section 6: \<^verbatim>\<open>mint(to, id)\<close>, \<^verbatim>\<open>burn(id)\<close>, \<^verbatim>\<open>ownerOf(id) -> address\<close>; a
  lookup that fails means that the id has no holder). \<open>None\<close> is a revert. The
  specification is silent on when the primitives revert; the library's rules are taken:
  \<^verbatim>\<open>ownerOf\<close> and \<^verbatim>\<open>_burn\<close> revert on an id without holder, \<^verbatim>\<open>_safeMint\<close> on the zero
  address, on an id that has a holder, and when the receiver does not accept the asset
  (the answer is the call environment's \<open>accepts721\<close>).
\<close>

definition ownerOf :: "state \<Rightarrow> nat \<Rightarrow> address option" where
  "ownerOf s tokenId =
     (if owners721 s tokenId = zero_address then None else Some (owners721 s tokenId))"

definition safeMint :: "state \<Rightarrow> env \<Rightarrow> address \<Rightarrow> nat \<Rightarrow> state option" where
  "safeMint s e to tokenId =
     (if to = zero_address then None
      else if owners721 s tokenId \<noteq> zero_address then None
      else if \<not> accepts721 e then None
      else Some (s\<lparr>owners721 := (owners721 s)(tokenId := to)\<rparr>))"

definition burn :: "state \<Rightarrow> nat \<Rightarrow> state option" where
  "burn s tokenId =
     (if owners721 s tokenId = zero_address then None
      else Some (s\<lparr>owners721 := (owners721 s)(tokenId := zero_address)\<rparr>))"

subsection \<open>The contract's functions\<close>

definition constructor :: "address \<Rightarrow> address \<Rightarrow> Token \<Rightarrow> state" where
  "constructor deployer this tok =
     \<lparr>self = this, owner = deployer, tixcoin = tok, eventIdCounter = 0, ticketIdCounter = 0,
      events = (\<lambda>_. default_Event), tickets = (\<lambda>_. default_Ticket),
      ownerBookings = (\<lambda>_. []), owners721 = (\<lambda>_. zero_address)\<rparr>"

text \<open>The modifier \<^verbatim>\<open>onlyOwner\<close>, applied to the outcome of the body it guards.\<close>

definition onlyOwner :: "state \<Rightarrow> env \<Rightarrow> outcome \<Rightarrow> outcome" where
  "onlyOwner s e body = (if msg_sender e = owner s then body else Inl Unauthorized)"

definition createEvent :: "state \<Rightarrow> env \<Rightarrow> string \<Rightarrow> nat \<Rightarrow> nat \<Rightarrow> nat \<Rightarrow> nat \<Rightarrow> outcome" where
  "createEvent s e n d p t r =
     onlyOwner s e
       (if eventIdCounter s = max_uint256 then Inl Panic
        else
          let c = eventIdCounter s + 1
          in Inr ([], s\<lparr>eventIdCounter := c,
                events := (events s)(c :=
                  \<lparr>name = n, date = d, price = p, totalTickets = t, soldTickets = 0,
                   refundDeadline = r\<rparr>)\<rparr>))"

text \<open>The value \<^verbatim>\<open>tixcoin.transfer\<close> returns is not looked at.\<close>

definition withdrawFunds :: "state \<Rightarrow> env \<Rightarrow> outcome" where
  "withdrawFunds s e =
     onlyOwner s e
       (let balance = token_balanceOf (tixcoin s) (self s)
        in if \<not> balance > 0 then Inl NothingToWithdraw
           else
             (case token_transfer (tixcoin s) (self s) (owner s) balance of
                None \<Rightarrow> Inl PaymentFailed
              | Some (_, tok) \<Rightarrow> Inr ([], s\<lparr>tixcoin := tok\<rparr>)))"

text \<open>\<^verbatim>\<open>currentEvent.soldTickets++\<close> cannot overflow: it runs below \<^verbatim>\<open>totalTickets\<close>.\<close>

definition bookTicket :: "state \<Rightarrow> env \<Rightarrow> nat \<Rightarrow> outcome" where
  "bookTicket s e eid =
     (let currentEvent = events s eid
      in if \<not> (eid > 0 \<and> eid \<le> eventIdCounter s) then Inl NotFound
         else if \<not> soldTickets currentEvent < totalTickets currentEvent then Inl SoldOut
         else
           (case token_transferFrom (tixcoin s) (self s) (msg_sender e) (self s) (price currentEvent) of
              None \<Rightarrow> Inl PaymentFailed
            | Some (success, tok) \<Rightarrow>
                if \<not> success then Inl PaymentFailed
                else if ticketIdCounter s = max_uint256 then Inl Panic
                else
                  let tid = ticketIdCounter s + 1;
                      s1 = s\<lparr>tixcoin := tok,
                             ticketIdCounter := tid,
                             events := (events s)(eid :=
                               currentEvent\<lparr>soldTickets := soldTickets currentEvent + 1\<rparr>),
                             tickets := (tickets s)(tid :=
                               \<lparr>eventId = eid, ticket_owner = msg_sender e, isCancelled = False\<rparr>),
                             ownerBookings := (ownerBookings s)(msg_sender e :=
                               ownerBookings s (msg_sender e) @ [tid])\<rparr>
                  in (case safeMint s1 e (msg_sender e) tid of
                        None \<Rightarrow> Inl RegistryError
                      | Some s2 \<Rightarrow> Inr ([], s2))))"

text \<open>\<^verbatim>\<open>_ticketOwnerOf\<close>: the \<^verbatim>\<open>try\<close>/\<^verbatim>\<open>catch\<close> around \<^verbatim>\<open>this.ownerOf\<close>.\<close>

definition ticketOwnerOf :: "state \<Rightarrow> nat \<Rightarrow> address" where
  "ticketOwnerOf s tid = (case ownerOf s tid of Some ticketOwner \<Rightarrow> ticketOwner | None \<Rightarrow> zero_address)"

definition refundAmount :: "env \<Rightarrow> Event \<Rightarrow> nat" where
  "refundAmount e currentEvent =
     (if block_timestamp e < refundDeadline currentEvent then price currentEvent
      else price currentEvent div 2)"

text \<open>The value \<^verbatim>\<open>tixcoin.transfer\<close> returns is not looked at here either.\<close>

definition cancelBooking :: "state \<Rightarrow> env \<Rightarrow> nat \<Rightarrow> outcome" where
  "cancelBooking s e tid =
     (if ticketOwnerOf s tid \<noteq> msg_sender e then Inl NotOwner
      else
        let ticket = tickets s tid
        in if isCancelled ticket then Inl AlreadyCancelled
           else
             let currentEvent = events s (eventId ticket);
                 amount = refundAmount e currentEvent
             in (case (if amount > 0
                       then map_option snd (token_transfer (tixcoin s) (self s) (msg_sender e) amount)
                       else Some (tixcoin s)) of
                   None \<Rightarrow> Inl PaymentFailed
                 | Some tok \<Rightarrow>
                     (case burn (s\<lparr>tixcoin := tok,
                                   tickets := (tickets s)(tid := ticket\<lparr>isCancelled := True\<rparr>)\<rparr>) tid of
                        None \<Rightarrow> Inl RegistryError
                      | Some s2 \<Rightarrow> Inr ([], s2))))"

definition getEventDetails :: "state \<Rightarrow> nat \<Rightarrow> Event" where
  "getEventDetails s eid = events s eid"

definition getUserTickets :: "state \<Rightarrow> address \<Rightarrow> nat list" where
  "getUserTickets s user = ownerBookings s user"

subsection \<open>Transactions and reachable states\<close>

datatype op =
  CreateEvent string nat nat nat nat
  | WithdrawFunds
  | BookTicket nat
  | CancelBooking nat

fun step :: "state \<Rightarrow> env \<Rightarrow> op \<Rightarrow> outcome" where
  "step s e (CreateEvent n d p t r) = createEvent s e n d p t r"
| "step s e WithdrawFunds = withdrawFunds s e"
| "step s e (BookTicket eid) = bookTicket s e eid"
| "step s e (CancelBooking tid) = cancelBooking s e tid"

text \<open>The state a transaction leaves: the one before it when it reverts.\<close>

definition transact :: "state \<Rightarrow> env \<Rightarrow> op \<Rightarrow> state" where
  "transact s e c = (case step s e c of Inl _ \<Rightarrow> s | Inr (_, s') \<Rightarrow> s')"

text \<open>
  The states the contract can be in. It is deployed by an account that is neither the zero
  address nor the contract itself, on any token. Then calls follow; between two of them the
  token may change (other accounts transfer and approve) and a ticket that has a holder may
  pass to another holder (the \<^verbatim>\<open>transferFrom\<close> the contract inherits from \<^verbatim>\<open>ERC721\<close>).
\<close>

inductive reachable :: "state \<Rightarrow> bool" where
  deployed: "deployer \<noteq> zero_address \<Longrightarrow> deployer \<noteq> this \<Longrightarrow> reachable (constructor deployer this tok)"
| called: "reachable s \<Longrightarrow> step s e c = Inr (rd, s') \<Longrightarrow> reachable s'"
| token_changed: "reachable s \<Longrightarrow> reachable (s\<lparr>tixcoin := tok\<rparr>)"
| ticket_passed:
    "reachable s \<Longrightarrow> owners721 s tid \<noteq> zero_address \<Longrightarrow> to \<noteq> zero_address \<Longrightarrow>
     reachable (s\<lparr>owners721 := (owners721 s)(tid := to)\<rparr>)"

text \<open>A token call was accepted when it returned \<^verbatim>\<open>true\<close>; it was rejected when it
  reverted or returned \<^verbatim>\<open>false\<close>.\<close>

definition accepted :: "(bool \<times> Token) option \<Rightarrow> bool" where
  "accepted r = (case r of Some (True, _) \<Rightarrow> True | _ \<Rightarrow> False)"

subsection \<open>A scenario\<close>

text \<open>
  The scenario of section 8 of the specification, on concrete accounts: the administrator
  is account 1, a buyer account 2, the contract account 9. The buyer holds 1000 units of the
  token and has authorised the contract for 1000. The administrator lists one event
  (date 10, price 100, capacity 2, refund deadline 60); the buyer books a ticket at time 50;
  then either the administrator sweeps the funds, or the buyer cancels. The parameter says
  whether the token rejects by returning \<^verbatim>\<open>false\<close>.
\<close>

definition demo_token :: "bool \<Rightarrow> Token" where
  "demo_token rf =
     \<lparr>balances = (\<lambda>_. 0)(2 := 1000),
      allowances = (\<lambda>_ _. 0)(2 := (\<lambda>_. 0)(9 := 1000)),
      returnsFalse = rf\<rparr>"

definition admin_call :: env where
  "admin_call = \<lparr>msg_sender = 1, block_timestamp = 50, accepts721 = True\<rparr>"

definition buyer_call :: "nat \<Rightarrow> env" where
  "buyer_call now = \<lparr>msg_sender = 2, block_timestamp = now, accepts721 = True\<rparr>"

definition demo_deployed :: "bool \<Rightarrow> state" where
  "demo_deployed rf = constructor 1 9 (demo_token rf)"

definition demo_listed :: "bool \<Rightarrow> state" where
  "demo_listed rf = transact (demo_deployed rf) admin_call (CreateEvent ''Gig'' 10 100 2 60)"

definition demo_booked :: "bool \<Rightarrow> state" where
  "demo_booked rf = transact (demo_listed rf) (buyer_call 50) (BookTicket 1)"

definition demo_withdrawn :: "bool \<Rightarrow> state" where
  "demo_withdrawn rf = transact (demo_booked rf) admin_call WithdrawFunds"

definition demo_cancelled :: "bool \<Rightarrow> state" where
  "demo_cancelled rf = transact (demo_booked rf) (buyer_call 50) (CancelBooking 1)"

text \<open>The buyer books the second and last seat.\<close>

definition demo_full :: "bool \<Rightarrow> state" where
  "demo_full rf = transact (demo_booked rf) (buyer_call 50) (BookTicket 1)"

text \<open>Account 3 holds no tokens and has authorised nothing.\<close>

definition stranger_call :: env where
  "stranger_call = \<lparr>msg_sender = 3, block_timestamp = 50, accepts721 = True\<rparr>"

text \<open>The buyer as a contract that does not accept \<^verbatim>\<open>ERC721\<close> assets, calling at time 100.\<close>

definition refusing_call :: env where
  "refusing_call = \<lparr>msg_sender = 2, block_timestamp = 100, accepts721 = False\<rparr>"

section \<open>Auxiliary facts\<close>

lemmas demo_defs =
  demo_token_def admin_call_def buyer_call_def demo_deployed_def demo_listed_def
  demo_booked_def

lemmas contract_defs =
  transact_def constructor_def createEvent_def onlyOwner_def bookTicket_def
  withdrawFunds_def cancelBooking_def token_transferFrom_def token_transfer_def
  token_move_def token_reject_def token_balanceOf_def safeMint_def burn_def ownerOf_def
  ticketOwnerOf_def refundAmount_def zero_address_def max_uint256_def default_Event_def
  default_Ticket_def Let_def

subsection \<open>What a successful call has done\<close>

lemma createEvent_Inr:
  assumes "createEvent s e n d p t r = Inr (rd, s')"
  shows "rd = [] \<and> msg_sender e = owner s \<and> eventIdCounter s \<noteq> max_uint256 \<and>
         s' = s\<lparr>eventIdCounter := eventIdCounter s + 1,
                events := (events s)(eventIdCounter s + 1 :=
                  \<lparr>name = n, date = d, price = p, totalTickets = t, soldTickets = 0,
                   refundDeadline = r\<rparr>)\<rparr>"
  using assms by (auto simp: createEvent_def onlyOwner_def Let_def split: if_splits)

lemma withdrawFunds_Inr:
  assumes "withdrawFunds s e = Inr (rd, s')"
  shows "rd = [] \<and> msg_sender e = owner s \<and> 0 < token_balanceOf (tixcoin s) (self s) \<and>
         (\<exists>b tok.
            token_transfer (tixcoin s) (self s) (owner s) (token_balanceOf (tixcoin s) (self s))
              = Some (b, tok)
            \<and> s' = s\<lparr>tixcoin := tok\<rparr>)"
  using assms
  by (auto simp: withdrawFunds_def onlyOwner_def Let_def split: if_splits option.splits)

lemma bookTicket_Inr:
  assumes "bookTicket s e eid = Inr (rd, s')"
  shows "rd = [] \<and> 0 < eid \<and> eid \<le> eventIdCounter s \<and>
         soldTickets (events s eid) < totalTickets (events s eid) \<and>
         ticketIdCounter s \<noteq> max_uint256 \<and> msg_sender e \<noteq> zero_address \<and> accepts721 e \<and>
         owners721 s (ticketIdCounter s + 1) = zero_address \<and>
         (\<exists>tok.
            token_transferFrom (tixcoin s) (self s) (msg_sender e) (self s) (price (events s eid))
              = Some (True, tok)
            \<and> s' = s\<lparr>tixcoin := tok,
                      ticketIdCounter := ticketIdCounter s + 1,
                      events := (events s)(eid :=
                        (events s eid)\<lparr>soldTickets := soldTickets (events s eid) + 1\<rparr>),
                      tickets := (tickets s)(ticketIdCounter s + 1 :=
                        \<lparr>eventId = eid, ticket_owner = msg_sender e, isCancelled = False\<rparr>),
                      ownerBookings := (ownerBookings s)(msg_sender e :=
                        ownerBookings s (msg_sender e) @ [ticketIdCounter s + 1]),
                      owners721 := (owners721 s)(ticketIdCounter s + 1 := msg_sender e)\<rparr>)"
  using assms
  by (auto simp: bookTicket_def safeMint_def Let_def split: if_splits option.splits)

lemma cancelBooking_Inr:
  assumes "cancelBooking s e tid = Inr (rd, s')"
  shows "rd = [] \<and> owners721 s tid = msg_sender e \<and> msg_sender e \<noteq> zero_address \<and>
         \<not> isCancelled (tickets s tid) \<and>
         (\<exists>tok.
            (if 0 < refundAmount e (events s (eventId (tickets s tid)))
             then map_option snd (token_transfer (tixcoin s) (self s) (msg_sender e)
                    (refundAmount e (events s (eventId (tickets s tid)))))
             else Some (tixcoin s)) = Some tok
            \<and> s' = s\<lparr>tixcoin := tok,
                      tickets := (tickets s)(tid := (tickets s tid)\<lparr>isCancelled := True\<rparr>),
                      owners721 := (owners721 s)(tid := zero_address)\<rparr>)"
  using assms
  by (auto simp: cancelBooking_def ticketOwnerOf_def ownerOf_def burn_def Let_def
      split: if_splits option.splits)

subsection \<open>Invariants of the reachable states\<close>

lemma reachable_owner:
  "reachable s \<Longrightarrow> owner s \<noteq> zero_address \<and> owner s \<noteq> self s"
proof (induction rule: reachable.induct)
  case (deployed deployer this tok)
  then show ?case by (simp add: constructor_def)
next
  case (called s e c rd s')
  then show ?case
    by (cases c)
      (auto dest!: createEvent_Inr withdrawFunds_Inr bookTicket_Inr cancelBooking_Inr)
qed simp_all

text \<open>Event ids are dense from 1: outside \<open>1 .. eventIdCounter\<close> nothing was ever written.\<close>

lemma reachable_events_default:
  "reachable s \<Longrightarrow> \<not> (0 < eid \<and> eid \<le> eventIdCounter s) \<Longrightarrow> events s eid = default_Event"
proof (induction arbitrary: eid rule: reachable.induct)
  case (deployed deployer this tok)
  then show ?case by (simp add: constructor_def)
next
  case (called s e c rd s')
  then show ?case
    by (cases c)
      (auto dest!: createEvent_Inr withdrawFunds_Inr bookTicket_Inr cancelBooking_Inr)
qed simp_all

lemma reachable_sold_le_total:
  "reachable s \<Longrightarrow> soldTickets (events s eid) \<le> totalTickets (events s eid)"
proof (induction arbitrary: eid rule: reachable.induct)
  case (deployed deployer this tok)
  then show ?case by (simp add: constructor_def default_Event_def)
next
  case (called s e c rd s')
  then show ?case
    by (cases c)
      (auto dest!: createEvent_Inr withdrawFunds_Inr bookTicket_Inr cancelBooking_Inr)
qed simp_all

text \<open>A cancelled ticket has no holder: cancelling burns the asset, and booking never reuses
  an id.\<close>

lemma reachable_cancelled_no_holder:
  "reachable s \<Longrightarrow> isCancelled (tickets s tid) \<Longrightarrow> owners721 s tid = zero_address"
proof (induction arbitrary: tid rule: reachable.induct)
  case (deployed deployer this tok)
  then show ?case by (simp add: constructor_def default_Ticket_def)
next
  case (called s e c rd s')
  then show ?case
    by (cases c)
      (auto dest!: createEvent_Inr withdrawFunds_Inr bookTicket_Inr cancelBooking_Inr
        split: if_splits)
next
  case (ticket_passed s tid' to)
  then show ?case by (auto split: if_splits)
qed simp_all

lemma reachable_fresh_no_holder:
  "reachable s \<Longrightarrow> \<not> (0 < tid \<and> tid \<le> ticketIdCounter s) \<Longrightarrow> owners721 s tid = zero_address"
proof (induction arbitrary: tid rule: reachable.induct)
  case (deployed deployer this tok)
  then show ?case by (simp add: constructor_def)
next
  case (called s e c rd s')
  then show ?case
    by (cases c)
      (auto dest!: createEvent_Inr withdrawFunds_Inr bookTicket_Inr cancelBooking_Inr
        split: if_splits)
next
  case (ticket_passed s tid' to)
  then show ?case by (auto split: if_splits)
qed simp_all

text \<open>Ticket ids are dense from 1 as well, so a booking never writes over a ticket.\<close>

lemma reachable_tickets_default:
  "reachable s \<Longrightarrow> \<not> (0 < tid \<and> tid \<le> ticketIdCounter s) \<Longrightarrow> tickets s tid = default_Ticket"
proof (induction arbitrary: tid rule: reachable.induct)
  case (deployed deployer this tok)
  then show ?case by (simp add: constructor_def)
next
  case (called s e c rd s')
  show ?case
  proof (cases c)
    case (CreateEvent n d p t r)
    with called.hyps(2) have "createEvent s e n d p t r = Inr (rd, s')" by simp
    from createEvent_Inr [OF this] called.IH [of tid] called.prems show ?thesis by auto
  next
    case WithdrawFunds
    with called.hyps(2) have "withdrawFunds s e = Inr (rd, s')" by simp
    from withdrawFunds_Inr [OF this] called.IH [of tid] called.prems show ?thesis by auto
  next
    case (BookTicket b)
    with called.hyps(2) have "bookTicket s e b = Inr (rd, s')" by simp
    from bookTicket_Inr [OF this] called.IH [of tid] called.prems show ?thesis by auto
  next
    case (CancelBooking k)
    with called.hyps(2) have ok: "cancelBooking s e k = Inr (rd, s')" by simp
    from cancelBooking_Inr [OF ok] have "owners721 s k \<noteq> zero_address" by auto
    with reachable_fresh_no_holder [OF called.hyps(1), of k]
    have "0 < k \<and> k \<le> ticketIdCounter s" by blast
    with cancelBooking_Inr [OF ok] called.IH [of tid] called.prems show ?thesis by auto
  qed
qed simp_all

lemma reachable_transact: "reachable s \<Longrightarrow> reachable (transact s e c)"
  by (cases "step s e c") (auto simp: transact_def intro: reachable.called)

lemma transact_sold_mono:
  assumes "reachable s"
  shows "soldTickets (events s eid) \<le> soldTickets (events (transact s e c) eid)"
proof (cases "step s e c")
  case (Inl err)
  then show ?thesis by (simp add: transact_def)
next
  case (Inr res)
  obtain rd s' where res: "res = (rd, s')" by (cases res)
  have post: "transact s e c = s'" using Inr res by (simp add: transact_def)
  show ?thesis
  proof (cases c)
    case (CreateEvent n d p t r)
    with Inr res have "createEvent s e n d p t r = Inr (rd, s')" by simp
    from createEvent_Inr [OF this] reachable_events_default [OF assms, of "eventIdCounter s + 1"]
    show ?thesis unfolding post by (auto simp: default_Event_def)
  next
    case WithdrawFunds
    with Inr res have "withdrawFunds s e = Inr (rd, s')" by simp
    from withdrawFunds_Inr [OF this] show ?thesis unfolding post by auto
  next
    case (BookTicket b)
    with Inr res have "bookTicket s e b = Inr (rd, s')" by simp
    from bookTicket_Inr [OF this] show ?thesis unfolding post by auto
  next
    case (CancelBooking k)
    with Inr res have "cancelBooking s e k = Inr (rd, s')" by simp
    from cancelBooking_Inr [OF this] show ?thesis unfolding post by auto
  qed
qed

text \<open>The flag \<open>isCancelled\<close> is never reset.\<close>

lemma cancelled_stays_cancelled:
  assumes "reachable s" and "isCancelled (tickets s tid)"
  shows "isCancelled (tickets (transact s e c) tid)"
proof (cases "step s e c")
  case (Inl err)
  then show ?thesis using assms(2) by (simp add: transact_def)
next
  case (Inr res)
  obtain rd s' where res: "res = (rd, s')" by (cases res)
  have post: "transact s e c = s'" using Inr res by (simp add: transact_def)
  have known: "0 < tid \<and> tid \<le> ticketIdCounter s"
  proof (rule ccontr)
    assume "\<not> (0 < tid \<and> tid \<le> ticketIdCounter s)"
    then have "tickets s tid = default_Ticket"
      by (rule reachable_tickets_default [OF assms(1)])
    with assms(2) show False by (simp add: default_Ticket_def)
  qed
  show ?thesis
  proof (cases c)
    case (CreateEvent n d p t r)
    with Inr res have "createEvent s e n d p t r = Inr (rd, s')" by simp
    from createEvent_Inr [OF this] assms(2) show ?thesis unfolding post by auto
  next
    case WithdrawFunds
    with Inr res have "withdrawFunds s e = Inr (rd, s')" by simp
    from withdrawFunds_Inr [OF this] assms(2) show ?thesis unfolding post by auto
  next
    case (BookTicket b)
    with Inr res have "bookTicket s e b = Inr (rd, s')" by simp
    from bookTicket_Inr [OF this] assms(2) known show ?thesis unfolding post by auto
  next
    case (CancelBooking k)
    with Inr res have "cancelBooking s e k = Inr (rd, s')" by simp
    from cancelBooking_Inr [OF this] assms(2) show ?thesis unfolding post by auto
  qed
qed

subsection \<open>The scenario, step by step\<close>

lemma demo_listed_step:
  "step (demo_deployed rf) admin_call (CreateEvent ''Gig'' 10 100 2 60) = Inr ([], demo_listed rf)"
  by (simp add: demo_defs contract_defs)

lemma demo_booked_step:
  "step (demo_listed rf) (buyer_call 50) (BookTicket 1) = Inr ([], demo_booked rf)"
  by (simp add: demo_defs contract_defs)

lemma demo_withdrawn_step:
  "step (demo_booked rf) admin_call WithdrawFunds = Inr ([], demo_withdrawn rf)"
  by (simp add: demo_withdrawn_def demo_defs contract_defs)

lemma demo_cancelled_step:
  "step (demo_booked rf) (buyer_call 50) (CancelBooking 1) = Inr ([], demo_cancelled rf)"
  by (simp add: demo_cancelled_def demo_defs contract_defs)

lemma demo_deployed_reachable: "reachable (demo_deployed rf)"
  unfolding demo_deployed_def by (rule reachable.deployed) (simp_all add: zero_address_def)

lemma demo_listed_reachable: "reachable (demo_listed rf)"
  by (rule reachable.called [OF demo_deployed_reachable demo_listed_step])

lemma demo_booked_reachable: "reachable (demo_booked rf)"
  by (rule reachable.called [OF demo_listed_reachable demo_booked_step])

lemma demo_cancelled_reachable: "reachable (demo_cancelled rf)"
  by (rule reachable.called [OF demo_booked_reachable demo_cancelled_step])

subsection \<open>The refund push with a token that reverts\<close>

text \<open>
  With a token that signals a rejection by reverting, a cancellation whose refund push is
  rejected reverts as a whole, and a cancellation that succeeds has paid the refund: the
  caller's balance has grown, and the contract's has shrunk, by exactly \<open>refundAmount\<close>.
\<close>

lemma cancelBooking_reverting_token_atomic:
  assumes "\<not> returnsFalse (tixcoin s)"
    and "0 < refundAmount e (events s (eventId (tickets s tid)))"
    and "token_balanceOf (tixcoin s) (self s) < refundAmount e (events s (eventId (tickets s tid)))"
  shows "\<exists>err. cancelBooking s e tid = Inl err"
  using assms
  by (auto simp: cancelBooking_def token_transfer_def token_reject_def token_balanceOf_def
      Let_def split: if_splits)

lemma cancelBooking_refund_paid:
  assumes "cancelBooking s e tid = Inr (rd, s')"
    and "\<not> returnsFalse (tixcoin s)" and "msg_sender e \<noteq> self s"
  shows "token_balanceOf (tixcoin s') (msg_sender e) =
           token_balanceOf (tixcoin s) (msg_sender e)
             + refundAmount e (events s (eventId (tickets s tid)))
       \<and> token_balanceOf (tixcoin s') (self s)
             + refundAmount e (events s (eventId (tickets s tid)))
           = token_balanceOf (tixcoin s) (self s)"
  using cancelBooking_Inr [OF assms(1)] assms(2,3)
  by (auto simp: token_transfer_def token_reject_def token_move_def token_balanceOf_def Let_def
      split: if_splits)

section \<open>The claims\<close>

text \<open>
  Claim C1. In every reachable state, and in the state any transaction leaves (one of
  \<^verbatim>\<open>createEvent\<close>, \<^verbatim>\<open>bookTicket\<close>, \<^verbatim>\<open>cancelBooking\<close>, \<^verbatim>\<open>withdrawFunds\<close>, successful or reverted),
  every event has \<open>soldTickets \<le> totalTickets\<close>; no transaction lowers the \<open>soldTickets\<close> of
  any event; in particular a successful \<^verbatim>\<open>cancelBooking\<close> lowers none.
\<close>

theorem soldTickets_bounded_and_monotone:
  assumes "reachable s"
  shows "soldTickets (events s eid) \<le> totalTickets (events s eid)
       \<and> soldTickets (events (transact s e c) eid) \<le> totalTickets (events (transact s e c) eid)
       \<and> soldTickets (events s eid) \<le> soldTickets (events (transact s e c) eid)
       \<and> (\<forall>rd s'. cancelBooking s e tid = Inr (rd, s') \<longrightarrow>
            soldTickets (events s eid) \<le> soldTickets (events s' eid))"
proof -
  have "soldTickets (events s eid) \<le> totalTickets (events s eid)"
    by (rule reachable_sold_le_total [OF assms])
  moreover have "soldTickets (events (transact s e c) eid) \<le> totalTickets (events (transact s e c) eid)"
    by (rule reachable_sold_le_total [OF reachable_transact [OF assms]])
  moreover have "soldTickets (events s eid) \<le> soldTickets (events (transact s e c) eid)"
    by (rule transact_sold_mono [OF assms])
  moreover have "soldTickets (events s eid) \<le> soldTickets (events s' eid)"
    if "cancelBooking s e tid = Inr (rd, s')" for rd s'
    using cancelBooking_Inr [OF that] by auto
  ultimately show ?thesis by blast
qed

theorem soldTickets_bounded_and_monotone_witness:
  "soldTickets (events (transact (demo_listed False) (buyer_call 50) (BookTicket 1)) 1)
     \<le> totalTickets (events (transact (demo_listed False) (buyer_call 50) (BookTicket 1)) 1)
   \<and> soldTickets (events (demo_listed False) 1) = 0
   \<and> soldTickets (events (transact (demo_listed False) (buyer_call 50) (BookTicket 1)) 1) = 1
   \<and> soldTickets (events (demo_booked False) 1) \<le> soldTickets (events (demo_cancelled False) 1)"
proof -
  have booked: "transact (demo_listed False) (buyer_call 50) (BookTicket 1) = demo_booked False"
    by (simp add: demo_booked_def)
  have cancel:
    "cancelBooking (demo_booked False) (buyer_call 50) 1 = Inr ([], demo_cancelled False)"
    using demo_cancelled_step [of False] by simp
  have "soldTickets (events (demo_listed False) 1) = 0"
    by (simp add: demo_defs contract_defs)
  moreover have "soldTickets (events (demo_booked False) 1) = 1"
    by (simp add: demo_defs contract_defs)
  ultimately show ?thesis
    using soldTickets_bounded_and_monotone
        [OF demo_listed_reachable, where e = "buyer_call 50" and c = "BookTicket 1" and eid = 1]
      soldTickets_bounded_and_monotone
        [OF demo_booked_reachable, where e = "buyer_call 50" and tid = 1 and eid = 1]
      cancel
    unfolding booked by blast
qed

text \<open>
  Claim C2. \<^verbatim>\<open>bookTicket\<close> checks its preconditions in order, the first failure winning: an
  event id outside \<open>1 .. eventIdCounter\<close> fails with \<open>NotFound\<close>, whatever else holds;
  otherwise an event with \<open>soldTickets = totalTickets\<close> fails with \<open>SoldOut\<close>, whatever
  the payment would do; otherwise a payment pull that the token rejects (by reverting or by
  returning \<^verbatim>\<open>false\<close>) fails with \<open>PaymentFailed\<close>. A failed \<^verbatim>\<open>bookTicket\<close> leaves the
  whole state as it was: the event's sold count, both counters, the tickets, the purchaser
  index, the registry and the token.
\<close>

theorem bookTicket_precondition_order:
  "(\<not> (1 \<le> eid \<and> eid \<le> eventIdCounter s) \<longrightarrow> bookTicket s e eid = Inl NotFound)
   \<and> (1 \<le> eid \<and> eid \<le> eventIdCounter s
        \<and> soldTickets (events s eid) = totalTickets (events s eid)
      \<longrightarrow> bookTicket s e eid = Inl SoldOut)
   \<and> (1 \<le> eid \<and> eid \<le> eventIdCounter s
        \<and> soldTickets (events s eid) < totalTickets (events s eid)
        \<and> \<not> accepted (token_transferFrom (tixcoin s) (self s) (msg_sender e) (self s)
                         (price (events s eid)))
      \<longrightarrow> bookTicket s e eid = Inl PaymentFailed)
   \<and> (\<forall>err. bookTicket s e eid = Inl err \<longrightarrow> transact s e (BookTicket eid) = s)"
proof -
  have "bookTicket s e eid = Inl NotFound" if "\<not> (1 \<le> eid \<and> eid \<le> eventIdCounter s)"
    using that by (auto simp: bookTicket_def Let_def)
  moreover have "bookTicket s e eid = Inl SoldOut"
    if "1 \<le> eid" "eid \<le> eventIdCounter s"
      "soldTickets (events s eid) = totalTickets (events s eid)"
    using that by (simp add: bookTicket_def Let_def)
  moreover have "bookTicket s e eid = Inl PaymentFailed"
    if "1 \<le> eid" "eid \<le> eventIdCounter s"
      "soldTickets (events s eid) < totalTickets (events s eid)"
      "\<not> accepted (token_transferFrom (tixcoin s) (self s) (msg_sender e) (self s)
                      (price (events s eid)))"
    using that by (auto simp: bookTicket_def accepted_def Let_def split: option.splits bool.splits)
  moreover have "transact s e (BookTicket eid) = s" if "bookTicket s e eid = Inl err" for err
    using that by (simp add: transact_def)
  ultimately show ?thesis by blast
qed

theorem bookTicket_precondition_order_witness:
  "bookTicket (demo_listed False) (buyer_call 50) 7 = Inl NotFound
   \<and> bookTicket (demo_full False) (buyer_call 50) 1 = Inl SoldOut
   \<and> bookTicket (demo_listed True) stranger_call 1 = Inl PaymentFailed
   \<and> transact (demo_listed True) stranger_call (BookTicket 1) = demo_listed True"
proof -
  have a: "\<not> (1 \<le> (7::nat) \<and> 7 \<le> eventIdCounter (demo_listed False))"
    by (simp add: demo_defs contract_defs)
  have b: "1 \<le> (1::nat) \<and> 1 \<le> eventIdCounter (demo_full False)
      \<and> soldTickets (events (demo_full False) 1) = totalTickets (events (demo_full False) 1)"
    by (simp add: demo_full_def demo_defs contract_defs)
  have c: "1 \<le> (1::nat) \<and> 1 \<le> eventIdCounter (demo_listed True)
      \<and> soldTickets (events (demo_listed True) 1) < totalTickets (events (demo_listed True) 1)
      \<and> \<not> accepted (token_transferFrom (tixcoin (demo_listed True)) (self (demo_listed True))
            (msg_sender stranger_call) (self (demo_listed True)) (price (events (demo_listed True) 1)))"
    by (simp add: stranger_call_def accepted_def demo_defs contract_defs)
  show ?thesis
    using a b c
      bookTicket_precondition_order [of 7 "demo_listed False" "buyer_call 50"]
      bookTicket_precondition_order [of 1 "demo_full False" "buyer_call 50"]
      bookTicket_precondition_order [of 1 "demo_listed True" stranger_call]
    by blast
qed

text \<open>
  Claim C3. Every successful \<^verbatim>\<open>cancelBooking\<close> transfers to the caller exactly \<open>price\<close> when
  the current time is before the event's \<open>refundDeadline\<close>, and exactly \<open>price div 2\<close> at or
  after it.

  The code computes this amount (\<open>refundAmount\<close>) and pushes it, but does not look at what
  \<^verbatim>\<open>tixcoin.transfer\<close> returns. In the scenario the token rejects by returning \<^verbatim>\<open>false\<close>
  and the administrator has swept the funds: the buyer cancels ticket 1 (price 100, deadline
  60) at time 50, and again in another run at time 70; both calls succeed, and the buyer's
  balance stays at 900, where the claim has it at 1000 and at 950.
\<close>

theorem refund_lost_when_push_returns_false:
  "step (demo_booked True) admin_call WithdrawFunds = Inr ([], demo_withdrawn True)
   \<and> ownerOf (demo_withdrawn True) 1 = Some 2
   \<and> token_balanceOf (tixcoin (demo_withdrawn True)) (self (demo_withdrawn True)) = 0
   \<and> block_timestamp (buyer_call 50) < refundDeadline (events (demo_withdrawn True) 1)
   \<and> \<not> block_timestamp (buyer_call 70) < refundDeadline (events (demo_withdrawn True) 1)
   \<and> price (events (demo_withdrawn True) 1) = 100
   \<and> token_balanceOf (tixcoin (demo_withdrawn True)) 2 = 900
   \<and> (case cancelBooking (demo_withdrawn True) (buyer_call 50) 1 of
        Inl err \<Rightarrow> False
      | Inr (rd, s') \<Rightarrow> token_balanceOf (tixcoin s') 2 = 900)
   \<and> (case cancelBooking (demo_withdrawn True) (buyer_call 70) 1 of
        Inl err \<Rightarrow> False
      | Inr (rd, s') \<Rightarrow> token_balanceOf (tixcoin s') 2 = 900)"
  by (simp add: demo_withdrawn_def demo_defs contract_defs)

text \<open>
  Claim C4. A second \<^verbatim>\<open>cancelBooking\<close> on a ticket that is already cancelled fails, and no
  second refund is paid. The specification names \<open>AlreadyCancelled\<close> as the failure. In the
  code the holder check comes first, and a cancelled ticket has no holder (its asset was
  burned): the call fails with \<open>NotOwner\<close> for every caller but the zero address, which is
  never the sender of a call. The state, and with it every token balance, stays as it was,
  and whatever transaction follows, the ticket stays cancelled.
\<close>

theorem cancel_again_fails:
  assumes "reachable s" and "isCancelled (tickets s tid)"
  shows "cancelBooking s e tid =
           Inl (if msg_sender e = zero_address then AlreadyCancelled else NotOwner)
       \<and> transact s e (CancelBooking tid) = s
       \<and> token_balanceOf (tixcoin (transact s e (CancelBooking tid))) a
           = token_balanceOf (tixcoin s) a
       \<and> isCancelled (tickets (transact s e' c) tid)"
proof -
  have "owners721 s tid = zero_address"
    by (rule reachable_cancelled_no_holder [OF assms])
  then have "ticketOwnerOf s tid = zero_address"
    by (simp add: ticketOwnerOf_def ownerOf_def)
  then have res: "cancelBooking s e tid =
      Inl (if msg_sender e = zero_address then AlreadyCancelled else NotOwner)"
    using assms(2) by (auto simp: cancelBooking_def Let_def)
  then have "transact s e (CancelBooking tid) = s"
    by (simp add: transact_def)
  with res cancelled_stays_cancelled [OF assms] show ?thesis by simp
qed

theorem cancel_again_fails_witness:
  "isCancelled (tickets (demo_cancelled False) 1)
   \<and> cancelBooking (demo_cancelled False) (buyer_call 70) 1 = Inl NotOwner
   \<and> transact (demo_cancelled False) (buyer_call 70) (CancelBooking 1) = demo_cancelled False
   \<and> token_balanceOf (tixcoin (transact (demo_cancelled False) (buyer_call 70) (CancelBooking 1))) 2
       = 1000
   \<and> isCancelled (tickets (transact (demo_cancelled False) (buyer_call 70) (BookTicket 1)) 1)"
proof -
  have c: "isCancelled (tickets (demo_cancelled False) 1)"
    by (simp add: demo_cancelled_def demo_defs contract_defs)
  have b: "token_balanceOf (tixcoin (demo_cancelled False)) 2 = 1000"
    by (simp add: demo_cancelled_def demo_defs contract_defs)
  have n: "msg_sender (buyer_call 70) \<noteq> zero_address"
    by (simp add: buyer_call_def zero_address_def)
  show ?thesis
    using cancel_again_fails
        [OF demo_cancelled_reachable c, where e = "buyer_call 70" and a = 2
          and e' = "buyer_call 70" and c = "BookTicket 1"] c b n
    by simp
qed

text \<open>
  The claim as the specification words it fails in the scenario: the buyer's second
  cancellation of ticket 1 is answered with \<open>NotOwner\<close>.
\<close>

theorem second_cancel_not_AlreadyCancelled:
  "reachable (demo_cancelled False)
   \<and> cancelBooking (demo_booked False) (buyer_call 50) 1 = Inr ([], demo_cancelled False)
   \<and> isCancelled (tickets (demo_cancelled False) 1)
   \<and> cancelBooking (demo_cancelled False) (buyer_call 50) 1 = Inl NotOwner
   \<and> cancelBooking (demo_cancelled False) (buyer_call 50) 1 \<noteq> Inl AlreadyCancelled"
proof -
  have "cancelBooking (demo_booked False) (buyer_call 50) 1 = Inr ([], demo_cancelled False)"
    using demo_cancelled_step [of False] by simp
  moreover have "isCancelled (tickets (demo_cancelled False) 1)"
    by (simp add: demo_cancelled_def demo_defs contract_defs)
  moreover have "cancelBooking (demo_cancelled False) (buyer_call 50) 1 = Inl NotOwner"
    by (simp add: demo_cancelled_def demo_defs contract_defs)
  ultimately show ?thesis
    using demo_cancelled_reachable [of False] by simp
qed

text \<open>
  Claim C5. \<^verbatim>\<open>cancelBooking\<close> is atomic with respect to the refund push: when the token
  rejects the push, the cancellation fails as a whole, the ticket's \<open>isCancelled\<close> flag stays
  false and its asset is not burned.

  For a token that rejects by reverting this is \<open>cancelBooking_reverting_token_atomic\<close>.
  For a token that rejects by returning \<^verbatim>\<open>false\<close> the code goes on, since it does not look
  at the returned value (as \<^verbatim>\<open>bookTicket\<close> does for \<^verbatim>\<open>transferFrom\<close>): in the scenario, after
  the administrator has swept the funds, the push of 100 is rejected, and yet the call
  succeeds, the ticket is flagged cancelled and its asset burned, and no token has moved.
\<close>

theorem cancel_goes_through_when_push_returns_false:
  "step (demo_deployed True) admin_call (CreateEvent ''Gig'' 10 100 2 60)
     = Inr ([], demo_listed True)
   \<and> step (demo_listed True) (buyer_call 50) (BookTicket 1) = Inr ([], demo_booked True)
   \<and> step (demo_booked True) admin_call WithdrawFunds = Inr ([], demo_withdrawn True)
   \<and> token_transfer (tixcoin (demo_withdrawn True)) (self (demo_withdrawn True))
       (msg_sender (buyer_call 50)) (refundAmount (buyer_call 50) (events (demo_withdrawn True) 1))
     = Some (False, tixcoin (demo_withdrawn True))
   \<and> refundAmount (buyer_call 50) (events (demo_withdrawn True) 1) = 100
   \<and> \<not> isCancelled (tickets (demo_withdrawn True) 1)
   \<and> ownerOf (demo_withdrawn True) 1 = Some 2
   \<and> (case cancelBooking (demo_withdrawn True) (buyer_call 50) 1 of
        Inl err \<Rightarrow> False
      | Inr (rd, s') \<Rightarrow>
          isCancelled (tickets s' 1) \<and> ownerOf s' 1 = None
          \<and> tixcoin s' = tixcoin (demo_withdrawn True))"
  by (simp add: demo_withdrawn_def demo_defs contract_defs)

text \<open>
  Claim C6. \<^verbatim>\<open>withdrawFunds\<close> called by anyone but the administrator fails with
  \<open>Unauthorized\<close>; called by the administrator while the contract holds no tokens it fails
  with \<open>NothingToWithdraw\<close>; called by the administrator while the contract holds tokens it
  succeeds, moves the contract's whole balance to the administrator and leaves the contract
  with none. Nothing else of the state changes.
\<close>

theorem withdrawFunds_outcomes:
  assumes "reachable s"
  shows "(msg_sender e \<noteq> owner s \<longrightarrow> withdrawFunds s e = Inl Unauthorized)
   \<and> (msg_sender e = owner s \<and> token_balanceOf (tixcoin s) (self s) = 0
        \<longrightarrow> withdrawFunds s e = Inl NothingToWithdraw)
   \<and> (msg_sender e = owner s \<and> 0 < token_balanceOf (tixcoin s) (self s)
        \<longrightarrow> (\<exists>s'. withdrawFunds s e = Inr ([], s')
               \<and> s' = s\<lparr>tixcoin := tixcoin s'\<rparr>
               \<and> token_balanceOf (tixcoin s') (self s) = 0
               \<and> token_balanceOf (tixcoin s') (owner s)
                   = token_balanceOf (tixcoin s) (owner s) + token_balanceOf (tixcoin s) (self s)))"
proof -
  have distinct: "owner s \<noteq> self s"
    using reachable_owner [OF assms] by simp
  have "withdrawFunds s e = Inl Unauthorized" if "msg_sender e \<noteq> owner s"
    using that by (simp add: withdrawFunds_def onlyOwner_def)
  moreover have "withdrawFunds s e = Inl NothingToWithdraw"
    if "msg_sender e = owner s" "token_balanceOf (tixcoin s) (self s) = 0"
    using that by (simp add: withdrawFunds_def onlyOwner_def)
  moreover have "\<exists>s'. withdrawFunds s e = Inr ([], s')
               \<and> s' = s\<lparr>tixcoin := tixcoin s'\<rparr>
               \<and> token_balanceOf (tixcoin s') (self s) = 0
               \<and> token_balanceOf (tixcoin s') (owner s)
                   = token_balanceOf (tixcoin s) (owner s) + token_balanceOf (tixcoin s) (self s)"
    if "msg_sender e = owner s" "0 < token_balanceOf (tixcoin s) (self s)"
    using that distinct
    by (simp add: withdrawFunds_def onlyOwner_def token_transfer_def token_move_def
        token_balanceOf_def Let_def)
  ultimately show ?thesis by blast
qed

theorem withdrawFunds_outcomes_witness:
  "withdrawFunds (demo_booked False) (buyer_call 50) = Inl Unauthorized
   \<and> withdrawFunds (demo_listed False) admin_call = Inl NothingToWithdraw
   \<and> withdrawFunds (demo_booked False) admin_call = Inr ([], demo_withdrawn False)
   \<and> token_balanceOf (tixcoin (demo_booked False)) 9 = 100
   \<and> token_balanceOf (tixcoin (demo_withdrawn False)) 9 = 0
   \<and> token_balanceOf (tixcoin (demo_withdrawn False)) 1 = 100"
proof -
  have a: "msg_sender (buyer_call 50) \<noteq> owner (demo_booked False)"
    by (simp add: demo_defs contract_defs)
  have b: "msg_sender admin_call = owner (demo_listed False)
      \<and> token_balanceOf (tixcoin (demo_listed False)) (self (demo_listed False)) = 0"
    by (simp add: demo_defs contract_defs)
  have c: "msg_sender admin_call = owner (demo_booked False)
      \<and> 0 < token_balanceOf (tixcoin (demo_booked False)) (self (demo_booked False))"
    by (simp add: demo_defs contract_defs)
  have d: "self (demo_booked False) = 9 \<and> owner (demo_booked False) = 1
      \<and> token_balanceOf (tixcoin (demo_booked False)) 9 = 100
      \<and> token_balanceOf (tixcoin (demo_booked False)) 1 = 0"
    by (simp add: demo_defs contract_defs)
  have w: "withdrawFunds (demo_booked False) admin_call = Inr ([], demo_withdrawn False)"
    using demo_withdrawn_step [of False] by simp
  show ?thesis
    using a b c d w
      withdrawFunds_outcomes [OF demo_booked_reachable, of "buyer_call 50" False]
      withdrawFunds_outcomes [OF demo_listed_reachable, of admin_call False]
      withdrawFunds_outcomes [OF demo_booked_reachable, of admin_call False]
    by auto
qed

text \<open>
  Claim C7. Every successful \<^verbatim>\<open>createEvent\<close> allocates the next event id (the previous
  \<open>eventIdCounter\<close> plus one) and stores under it the event record with \<open>soldTickets = 0\<close>,
  leaving every other event as it was. The specification adds that the call returns the new
  id; the function is declared without \<^verbatim>\<open>returns\<close>, so its return data is empty, and the new
  id is the value of \<open>eventIdCounter\<close> after the call.
\<close>

theorem createEvent_allocates_next_id:
  assumes "createEvent s e n d p t r = Inr (rd, s')"
  shows "eventIdCounter s' = eventIdCounter s + 1
       \<and> events s' (eventIdCounter s') =
           \<lparr>name = n, date = d, price = p, totalTickets = t, soldTickets = 0, refundDeadline = r\<rparr>
       \<and> (\<forall>i. i \<noteq> eventIdCounter s' \<longrightarrow> events s' i = events s i)
       \<and> rd = []"
  using createEvent_Inr [OF assms] by simp

theorem createEvent_allocates_next_id_witness:
  "createEvent (demo_deployed False) admin_call ''Gig'' 10 100 2 60 = Inr ([], demo_listed False)
   \<and> eventIdCounter (demo_deployed False) = 0
   \<and> eventIdCounter (demo_listed False) = 1
   \<and> events (demo_listed False) 1 =
       \<lparr>name = ''Gig'', date = 10, price = 100, totalTickets = 2, soldTickets = 0, refundDeadline = 60\<rparr>
   \<and> events (demo_listed False) 2 = events (demo_deployed False) 2"
proof -
  have c: "createEvent (demo_deployed False) admin_call ''Gig'' 10 100 2 60 = Inr ([], demo_listed False)"
    using demo_listed_step [of False] by simp
  have z: "eventIdCounter (demo_deployed False) = 0"
    by (simp add: demo_defs contract_defs)
  show ?thesis
    using createEvent_allocates_next_id [OF c] c z by auto
qed

text \<open>
  The claim as the specification words it fails in the scenario: the first event gets id 1,
  and the call returns nothing.
\<close>

theorem createEvent_returns_no_id:
  "(case createEvent (demo_deployed False) admin_call ''Gig'' 10 100 2 60 of
      Inl err \<Rightarrow> False
    | Inr (rd, s') \<Rightarrow>
        eventIdCounter (demo_deployed False) = 0 \<and> eventIdCounter s' = 1
        \<and> soldTickets (events s' 1) = 0 \<and> rd = [] \<and> rd \<noteq> [eventIdCounter s'])"
  by (simp add: demo_defs contract_defs)

text \<open>
  Claim C8. \<^verbatim>\<open>getEventDetails\<close> makes no existence check: for an id outside
  \<open>1 .. eventIdCounter\<close> it returns the record of zero values, not an error, and for an id
  inside it returns the stored record as it is.
\<close>

theorem getEventDetails_no_existence_check:
  assumes "reachable s"
  shows "(\<not> (1 \<le> eid \<and> eid \<le> eventIdCounter s) \<longrightarrow>
            getEventDetails s eid =
              \<lparr>name = [], date = 0, price = 0, totalTickets = 0, soldTickets = 0, refundDeadline = 0\<rparr>)
       \<and> (1 \<le> eid \<and> eid \<le> eventIdCounter s \<longrightarrow> getEventDetails s eid = events s eid)"
  using reachable_events_default [OF assms, of eid]
  by (auto simp: getEventDetails_def default_Event_def)

theorem getEventDetails_no_existence_check_witness:
  "getEventDetails (demo_listed False) 5 =
     \<lparr>name = [], date = 0, price = 0, totalTickets = 0, soldTickets = 0, refundDeadline = 0\<rparr>
   \<and> getEventDetails (demo_listed False) 0 =
     \<lparr>name = [], date = 0, price = 0, totalTickets = 0, soldTickets = 0, refundDeadline = 0\<rparr>
   \<and> getEventDetails (demo_listed False) 1 =
     \<lparr>name = ''Gig'', date = 10, price = 100, totalTickets = 2, soldTickets = 0, refundDeadline = 60\<rparr>"
proof -
  have c: "eventIdCounter (demo_listed False) = 1"
    by (simp add: demo_defs contract_defs)
  have ev: "events (demo_listed False) 1 =
     \<lparr>name = ''Gig'', date = 10, price = 100, totalTickets = 2, soldTickets = 0, refundDeadline = 60\<rparr>"
    by (simp add: demo_defs contract_defs)
  show ?thesis
    using c ev
      getEventDetails_no_existence_check [OF demo_listed_reachable, of 5 False]
      getEventDetails_no_existence_check [OF demo_listed_reachable, of 0 False]
      getEventDetails_no_existence_check [OF demo_listed_reachable, of 1 False]
    by simp
qed

text \<open>
  Claim C9. A successful \<^verbatim>\<open>cancelBooking\<close> changes the \<open>isCancelled\<close> flag of its ticket,
  the registry entry of that ticket (burned) and the token balances of the contract and of
  the caller (the refund), and nothing else: not the ticket's \<open>eventId\<close> and purchaser, not
  another ticket, not an event (so not \<open>soldTickets\<close>), not the purchaser index, not a
  counter, not the administrator, not an allowance, not another account's balance.
\<close>

theorem cancelBooking_frame:
  assumes "cancelBooking s e tid = Inr (rd, s')"
  shows "isCancelled (tickets s' tid)
       \<and> eventId (tickets s' tid) = eventId (tickets s tid)
       \<and> ticket_owner (tickets s' tid) = ticket_owner (tickets s tid)
       \<and> (\<forall>k. k \<noteq> tid \<longrightarrow> tickets s' k = tickets s k)
       \<and> events s' = events s
       \<and> ownerBookings s' = ownerBookings s
       \<and> eventIdCounter s' = eventIdCounter s
       \<and> ticketIdCounter s' = ticketIdCounter s
       \<and> owner s' = owner s \<and> self s' = self s
       \<and> owners721 s' = (owners721 s)(tid := zero_address)
       \<and> allowances (tixcoin s') = allowances (tixcoin s)
       \<and> (\<forall>a. a \<noteq> self s \<and> a \<noteq> msg_sender e \<longrightarrow>
            token_balanceOf (tixcoin s') a = token_balanceOf (tixcoin s) a)"
proof -
  from cancelBooking_Inr [OF assms] obtain tok where
    push: "(if 0 < refundAmount e (events s (eventId (tickets s tid)))
            then map_option snd (token_transfer (tixcoin s) (self s) (msg_sender e)
                   (refundAmount e (events s (eventId (tickets s tid)))))
            else Some (tixcoin s)) = Some tok"
    and s': "s' = s\<lparr>tixcoin := tok,
                    tickets := (tickets s)(tid := (tickets s tid)\<lparr>isCancelled := True\<rparr>),
                    owners721 := (owners721 s)(tid := zero_address)\<rparr>"
    by blast
  have "allowances tok = allowances (tixcoin s)
      \<and> (\<forall>a. a \<noteq> self s \<and> a \<noteq> msg_sender e \<longrightarrow> balances tok a = balances (tixcoin s) a)"
    using push
    by (auto simp: token_transfer_def token_reject_def token_move_def Let_def split: if_splits)
  then show ?thesis by (simp add: s' token_balanceOf_def)
qed

theorem cancelBooking_frame_witness:
  "cancelBooking (demo_booked False) (buyer_call 50) 1 = Inr ([], demo_cancelled False)
   \<and> \<not> isCancelled (tickets (demo_booked False) 1)
   \<and> isCancelled (tickets (demo_cancelled False) 1)
   \<and> ticket_owner (tickets (demo_cancelled False) 1) = 2
   \<and> events (demo_cancelled False) = events (demo_booked False)
   \<and> soldTickets (events (demo_cancelled False) 1) = 1
   \<and> ownerBookings (demo_cancelled False) 2 = [1]
   \<and> ticketIdCounter (demo_cancelled False) = 1"
proof -
  have c: "cancelBooking (demo_booked False) (buyer_call 50) 1 = Inr ([], demo_cancelled False)"
    using demo_cancelled_step [of False] by simp
  have b: "\<not> isCancelled (tickets (demo_booked False) 1)
      \<and> ticket_owner (tickets (demo_booked False) 1) = 2
      \<and> soldTickets (events (demo_booked False) 1) = 1
      \<and> ownerBookings (demo_booked False) 2 = [1]
      \<and> ticketIdCounter (demo_booked False) = 1"
    by (simp add: demo_defs contract_defs)
  show ?thesis
    using cancelBooking_frame [OF c] c b by simp
qed

text \<open>
  Claim C10. \<^verbatim>\<open>bookTicket\<close> puts no condition on the event's date or refund deadline and
  does not read the current time: let the event's \<open>date\<close> and \<open>refundDeadline\<close> and the
  call's \<open>block_timestamp\<close> be any \<open>d\<close>, \<open>r\<close> and \<open>now\<close>, past or not. The booking succeeds
  and mints the next ticket to the caller when the event id is in range, a seat is left and
  the payment pull is accepted, and when moreover the registry's safe mint accepts the
  caller (who is not the zero address) as receiver and \<open>ticketIdCounter\<close> has not reached
  \<open>max_uint256\<close>: the two further ways a booking can revert.
\<close>

theorem bookTicket_ignores_dates:
  assumes "reachable s"
    and "1 \<le> eid" and "eid \<le> eventIdCounter s"
    and "soldTickets (events s eid) < totalTickets (events s eid)"
    and "accepted (token_transferFrom (tixcoin s) (self s) (msg_sender e) (self s)
                     (price (events s eid)))"
    and "ticketIdCounter s < max_uint256"
    and "msg_sender e \<noteq> zero_address" and "accepts721 e"
  shows "\<exists>s'. bookTicket
               (s\<lparr>events := (events s)(eid := (events s eid)\<lparr>date := d, refundDeadline := r\<rparr>)\<rparr>)
               (e\<lparr>block_timestamp := now\<rparr>) eid = Inr ([], s')
          \<and> ticketIdCounter s' = ticketIdCounter s + 1
          \<and> ownerOf s' (ticketIdCounter s') = Some (msg_sender e)
          \<and> tickets s' (ticketIdCounter s') =
              \<lparr>eventId = eid, ticket_owner = msg_sender e, isCancelled = False\<rparr>
          \<and> soldTickets (events s' eid) = soldTickets (events s eid) + 1
          \<and> date (events s' eid) = d \<and> refundDeadline (events s' eid) = r"
proof -
  have fresh: "owners721 s (ticketIdCounter s + 1) = zero_address"
    by (rule reachable_fresh_no_holder [OF assms(1)]) simp
  from assms(5) obtain tok where
    pull: "token_transferFrom (tixcoin s) (self s) (msg_sender e) (self s) (price (events s eid))
             = Some (True, tok)"
    by (auto simp: accepted_def split: option.splits bool.splits)
  show ?thesis
    using assms(2-4,6-8) fresh pull
    by (simp add: bookTicket_def safeMint_def ownerOf_def Let_def)
qed

theorem bookTicket_ignores_dates_witness:
  "date (events (demo_listed False) 1) < block_timestamp (buyer_call 100)
   \<and> refundDeadline (events (demo_listed False) 1) < block_timestamp (buyer_call 100)
   \<and> (\<exists>s'. bookTicket (demo_listed False) (buyer_call 100) 1 = Inr ([], s')
          \<and> ticketIdCounter s' = 1
          \<and> ownerOf s' 1 = Some 2
          \<and> soldTickets (events s' 1) = 1)"
proof -
  have h: "1 \<le> (1::nat)" "1 \<le> eventIdCounter (demo_listed False)"
    "soldTickets (events (demo_listed False) 1) < totalTickets (events (demo_listed False) 1)"
    "accepted (token_transferFrom (tixcoin (demo_listed False)) (self (demo_listed False))
        (msg_sender (buyer_call 100)) (self (demo_listed False)) (price (events (demo_listed False) 1)))"
    "ticketIdCounter (demo_listed False) < max_uint256"
    "msg_sender (buyer_call 100) \<noteq> zero_address" "accepts721 (buyer_call 100)"
    by (simp_all add: accepted_def demo_defs contract_defs)
  have v: "date (events (demo_listed False) 1) = 10 \<and> refundDeadline (events (demo_listed False) 1) = 60
     \<and> block_timestamp (buyer_call 100) = 100
     \<and> ticketIdCounter (demo_listed False) = 0 \<and> soldTickets (events (demo_listed False) 1) = 0
     \<and> msg_sender (buyer_call 100) = 2"
    by (simp add: demo_defs contract_defs)
  have same: "(demo_listed False)\<lparr>events := (events (demo_listed False))(1 :=
        (events (demo_listed False) 1)\<lparr>date := 10, refundDeadline := 60\<rparr>)\<rparr> = demo_listed False"
    "(buyer_call 100)\<lparr>block_timestamp := 100\<rparr> = buyer_call 100"
    by (simp_all add: demo_defs contract_defs)
  show ?thesis
    using bookTicket_ignores_dates [OF demo_listed_reachable h, where d = 10 and r = 60 and now = 100] v
    unfolding same by auto
qed

text \<open>
  Without the proviso on the receiver the claim fails: in the scenario the buyer, as a
  contract that does not accept the asset, books the event at time 100 (its date 10 and its
  deadline 60 are past); the id is in range, a seat is left and the pull is accepted, and
  \<^verbatim>\<open>_safeMint\<close> reverts.
\<close>

theorem booking_fails_when_mint_refused:
  "reachable (demo_listed False)
   \<and> 1 \<le> eventIdCounter (demo_listed False)
   \<and> soldTickets (events (demo_listed False) 1) < totalTickets (events (demo_listed False) 1)
   \<and> accepted (token_transferFrom (tixcoin (demo_listed False)) (self (demo_listed False))
        (msg_sender refusing_call) (self (demo_listed False)) (price (events (demo_listed False) 1)))
   \<and> date (events (demo_listed False) 1) < block_timestamp refusing_call
   \<and> bookTicket (demo_listed False) refusing_call 1 = Inl RegistryError"
proof -
  have "1 \<le> eventIdCounter (demo_listed False)
   \<and> soldTickets (events (demo_listed False) 1) < totalTickets (events (demo_listed False) 1)
   \<and> accepted (token_transferFrom (tixcoin (demo_listed False)) (self (demo_listed False))
        (msg_sender refusing_call) (self (demo_listed False)) (price (events (demo_listed False) 1)))
   \<and> date (events (demo_listed False) 1) < block_timestamp refusing_call
   \<and> bookTicket (demo_listed False) refusing_call 1 = Inl RegistryError"
    by (simp add: refusing_call_def accepted_def demo_defs contract_defs)
  then show ?thesis using demo_listed_reachable [of False] by simp
qed

end
